theory Spec2Isabelle
  imports Main
begin

section \<open>TerminalSessionManager: data model\<close>

text \<open>
  A shallow embedding of \<^verbatim>\<open>src/renderer/terminal/TerminalSessionManager.ts\<close>.
  One value of type \<open>session\<close> is one instance of the class. Every method and every
  callback the class installs is a function from the session (and the answers of the
  external collaborators it consults) to the updated session and the list of calls it
  made on its collaborators, in program order. JavaScript runs each of these functions
  to completion before the next one starts, so a run of the program is a sequence of
  such steps. A JavaScript string is a list of characters here; the code compares
  characters only for equality with ESC, \<^verbatim>\<open>[\<close>, \<^verbatim>\<open>I\<close> and \<^verbatim>\<open>O\<close>.
\<close>

text \<open>The reason tag of a capture: \<^verbatim>\<open>'interval' | 'detach' | 'dispose'\<close>.\<close>

datatype reason = Interval | Detach | Dispose

text \<open>An \<^verbatim>\<open>HTMLElement\<close> handed to \<^verbatim>\<open>attach\<close>, known by its identity.\<close>

type_synonym container = nat

text \<open>Where the session's own root element sits in the document: under the off-screen
  terminal host, or under a surface that was attached.\<close>

datatype node = Host | Surface container

text \<open>A registered callback: its identity and whether a call of it throws. A callback
  is an outside function; it is taken not to call back into the session.\<close>

datatype listener = Listener (lid: nat) (throws: bool)

record exit_info =
  exitCode :: "int option"
  signal :: "int option"

text \<open>The event a listener is called with; the channel is the constructor.\<close>

datatype notice =
    ActivityEvent
  | ReadyEvent
  | ErrorEvent string
  | ExitEvent exit_info

text \<open>The entries of \<^verbatim>\<open>this.disposables\<close>.\<close>

datatype cleanup = InputDisposable | ResizeDisposable | OffData | OffExit | OffStarted

text \<open>
  Modelled from the spec: \<^verbatim>\<open>TerminalMetrics\<close> (the memory guardrail) is imported by
  the manager and its file is not part of the sources. Section 4.4: it keeps a running
  total of the bytes admitted since the last reset.
\<close>

record metrics =
  bytesTracked :: nat

text \<open>
  \<^verbatim>\<open>TerminalSnapshotPayload\<close>, as it is built by a capture and as it comes back from
  the store. A field that may be missing or zero when read back is an option;
  \<open>stats\<close> holds the guardrail counters and the capture reason.
\<close>

record snapshot_payload =
  version :: "int option"
  createdAt :: int
  cols :: "nat option"
  rows :: "nat option"
  data :: string
  stats :: "(metrics \<times> reason) option"

text \<open>Every call the manager makes on a collaborator (transport, store, terminal engine,
  document, timer, guardrail, logger, listeners).\<close>

datatype effect =
    PtyInput string
  | PtyResize nat nat
  | PtyKill
  | PtyStart
  | PtyGetSnapshot
  | PtySaveSnapshot snapshot_payload
  | Serialize
  | TermOpen
  | TermWrite string
  | TermWriteln string
  | TermClear
  | TermReset
  | TermResize nat nat
  | TermRefresh int int
  | TermDispose
  | Fit
  | AppendChild node
  | ObserverObserve container
  | ObserverDisconnect container
  | RequestAnimationFrame
  | SetInterval
  | ClearInterval
  | Notify notice listener
  | RunCleanup cleanup
  | MetricsRecordExit exit_info
  | MetricsMarkSnapshot
  | MetricsDispose
  | LogWarn string
  | LogError string

text \<open>
  A capture task that was started and whose \<^verbatim>\<open>finally\<close> callback has not run yet.
  \<open>awaiting\<close> tells whether the task is suspended at
  \<^verbatim>\<open>await window.electronAPI.ptySaveSnapshot(...)\<close>; it is false when the body
  already returned (empty buffer on detach) or caught an exception.
\<close>

record task =
  taskId :: nat
  taskReason :: reason
  awaiting :: bool

text \<open>
  The fields of the class, under their names. \<open>containerParent\<close> is the parent of
  \<^verbatim>\<open>this.container\<close> in the document; \<open>observers\<close> lists the targets of the
  \<^verbatim>\<open>ResizeObserver\<close>s that are connected, while \<open>resizeObserver\<close> is the one the
  field refers to; \<open>termCols\<close> and \<open>termRows\<close> are \<^verbatim>\<open>this.terminal.cols\<close> and
  \<^verbatim>\<open>this.terminal.rows\<close>; \<open>tasks\<close> are the capture tasks in flight, oldest first.
\<close>

record session =
  attachedContainer :: "container option"
  resizeObserver :: "container option"
  observers :: "container list"
  containerParent :: node
  disposables :: "cleanup list"
  snapshotTimer :: bool
  pendingSnapshot :: "nat option"
  disposed :: bool
  opened :: bool
  activityListeners :: "listener list"
  readyListeners :: "listener list"
  errorListeners :: "listener list"
  exitListeners :: "listener list"
  firstFrameRendered :: bool
  ptyStarted :: bool
  lastSnapshotAt :: "int option"
  lastSnapshotReason :: "reason option"
  guardrail :: metrics
  termCols :: nat
  termRows :: nat
  tasks :: "task list"
  nextTask :: nat

text \<open>
  What the surroundings answer during one step: \<open>clock\<close> is \<^verbatim>\<open>Date.now()\<close> in
  milliseconds, \<open>serialized\<close> is the result of \<^verbatim>\<open>serializeAddon.serialize()\<close>
  (\<open>None\<close> when it throws), \<open>saveApi\<close> tells whether
  \<^verbatim>\<open>window.electronAPI.ptySaveSnapshot\<close> exists, \<open>killThrows\<close> whether
  \<^verbatim>\<open>ptyKill\<close> throws, and \<open>cleanupThrows\<close> which cleanup actions throw.
\<close>

record env =
  clock :: int
  serialized :: "string option"
  saveApi :: bool
  killThrows :: bool
  cleanupThrows :: "cleanup \<Rightarrow> bool"

section \<open>Constants\<close>

definition MAX_DATA_WINDOW_BYTES :: nat where
  "MAX_DATA_WINDOW_BYTES = 128 * 1024 * 1024"

text \<open>
  Modelled from the spec: \<^verbatim>\<open>TERMINAL_SNAPSHOT_VERSION\<close> is imported from
  \<^verbatim>\<open>#types/terminalSnapshot\<close>, which is not part of the sources. Section 8: the
  current version is 1.
\<close>

definition TERMINAL_SNAPSHOT_VERSION :: int where
  "TERMINAL_SNAPSHOT_VERSION = 1"

section \<open>Listener registries\<close>

text \<open>
  Each registry is a JavaScript \<^verbatim>\<open>Set\<close>: insertion order, no duplicates.
  \<^verbatim>\<open>add\<close> of a member changes nothing; \<^verbatim>\<open>delete\<close> removes the member.
\<close>

definition setAdd :: "'a \<Rightarrow> 'a list \<Rightarrow> 'a list" where
  "setAdd x xs = (if x \<in> set xs then xs else xs @ [x])"

definition setDelete :: "'a \<Rightarrow> 'a list \<Rightarrow> 'a list" where
  "setDelete x xs = removeAll x xs"

definition registerActivityListener :: "listener \<Rightarrow> session \<Rightarrow> session" where
  "registerActivityListener l s = s\<lparr>activityListeners := setAdd l (activityListeners s)\<rparr>"

definition registerReadyListener :: "listener \<Rightarrow> session \<Rightarrow> session" where
  "registerReadyListener l s = s\<lparr>readyListeners := setAdd l (readyListeners s)\<rparr>"

definition registerErrorListener :: "listener \<Rightarrow> session \<Rightarrow> session" where
  "registerErrorListener l s = s\<lparr>errorListeners := setAdd l (errorListeners s)\<rparr>"

definition registerExitListener :: "listener \<Rightarrow> session \<Rightarrow> session" where
  "registerExitListener l s = s\<lparr>exitListeners := setAdd l (exitListeners s)\<rparr>"

text \<open>
  The loop shared by the four \<^verbatim>\<open>emit*\<close> methods:
  \<^verbatim>\<open>for (const listener of set) { try { listener(x) } catch (error) { log.warn(msg, ...) } }\<close>.
  A call that throws is followed by the warning, and the loop goes on.
\<close>

primrec fanOut :: "notice \<Rightarrow> string \<Rightarrow> listener list \<Rightarrow> effect list" where
  "fanOut ev msg [] = []"
| "fanOut ev msg (l # ls) =
     (if throws l then [Notify ev l, LogWarn msg] else [Notify ev l]) @ fanOut ev msg ls"

definition emitActivity :: "session \<Rightarrow> effect list" where
  "emitActivity s = fanOut ActivityEvent ''Terminal activity listener failed'' (activityListeners s)"

definition emitReady :: "session \<Rightarrow> effect list" where
  "emitReady s = fanOut ReadyEvent ''Terminal ready listener failed'' (readyListeners s)"

definition emitError :: "string \<Rightarrow> session \<Rightarrow> effect list" where
  "emitError message s =
     fanOut (ErrorEvent message) ''Terminal error listener failed'' (errorListeners s)"

definition emitExit :: "exit_info \<Rightarrow> session \<Rightarrow> effect list" where
  "emitExit info s = fanOut (ExitEvent info) ''Terminal exit listener failed'' (exitListeners s)"

text \<open>The listeners an effect list called, in order.\<close>

fun invoked :: "effect list \<Rightarrow> listener list" where
  "invoked [] = []"
| "invoked (Notify ev l # es) = l # invoked es"
| "invoked (e # es) = invoked es"

section \<open>User input\<close>

definition ESC :: char where
  "ESC = CHR 0x1B"

definition focusIn :: string where
  "focusIn = [ESC, CHR ''['', CHR ''I'']"

definition focusOut :: string where
  "focusOut = [ESC, CHR ''['', CHR ''O'']"

text \<open>
  \<^verbatim>\<open>data.replace(/\x1b\[I|\x1b\[O/g, '')\<close>: one pass from the left; where one of the
  two sequences starts, its three characters are dropped and the scan resumes behind
  them; any other character is kept.
\<close>

fun filterFocus :: "string \<Rightarrow> string" where
  "filterFocus (a # b # c # rest) =
     (if a = ESC \<and> b = CHR ''['' \<and> (c = CHR ''I'' \<or> c = CHR ''O'')
      then filterFocus rest
      else a # filterFocus (b # c # rest))"
| "filterFocus xs = xs"

text \<open>The handler given to \<^verbatim>\<open>terminal.onData\<close> in the constructor.\<close>

definition onData :: "string \<Rightarrow> session \<Rightarrow> effect list" where
  "onData input s =
     emitActivity s @
     (if \<not> disposed s
      then (let filtered = filterFocus input
            in if filtered \<noteq> [] then [PtyInput filtered] else [])
      else [])"

text \<open>The handler given to \<^verbatim>\<open>terminal.onResize\<close> in the constructor.\<close>

definition onResize :: "nat \<Rightarrow> nat \<Rightarrow> session \<Rightarrow> effect list" where
  "onResize c r s = (if \<not> disposed s then [PtyResize c r] else [])"

text \<open>
  \<^verbatim>\<open>terminal.resize(cols, rows)\<close> as the terminal engine (xterm.js, an outside
  library) performs it: a call with the current size changes nothing; otherwise the
  size is raised to at least 2 columns and 1 row and stored, and the terminal's resize
  event runs the handler above with the new size.
\<close>

definition terminalResize :: "nat \<Rightarrow> nat \<Rightarrow> session \<Rightarrow> session \<times> effect list" where
  "terminalResize c r s =
     (if c = termCols s \<and> r = termRows s then (s, [TermResize c r])
      else
        (let s1 = s\<lparr>termCols := max c 2, termRows := max r 1\<rparr>
         in (s1, TermResize c r # onResize (max c 2) (max r 1) s1)))"

section \<open>Memory guardrail\<close>

text \<open>
  Modelled from the spec: \<^verbatim>\<open>TerminalMetrics.markSnapshot\<close> is not part of the sources.
  Section 4.3: on a successful save the guardrail counters are reset.
\<close>

definition markSnapshot :: "metrics \<Rightarrow> metrics" where
  "markSnapshot m = m\<lparr>bytesTracked := 0\<rparr>"

definition sentinel :: string where
  "sentinel = ''[scrollback truncated to protect memory]''"

text \<open>
  The handler given to \<^verbatim>\<open>window.electronAPI.onPtyData\<close> in \<^verbatim>\<open>connectPty\<close>.
  \<^verbatim>\<open>TerminalMetrics.canAccept\<close> is not part of the sources: it is the parameter
  \<open>accept\<close>, which returns the answer and the guardrail as the call left it. The
  handler calls it once and makes no other call on the guardrail.
\<close>

definition onPtyData ::
  "(metrics \<Rightarrow> string \<Rightarrow> bool \<times> metrics) \<Rightarrow> string \<Rightarrow> session \<Rightarrow> session \<times> effect list" where
  "onPtyData accept chunk s =
     (let (accepted, m) = accept (guardrail s) chunk;
          truncation =
            (if \<not> accepted
             then [LogWarn ''Terminal scrollback truncated to protect memory'',
                   TermClear, TermWriteln sentinel]
             else []);
          refresh =
            (if \<not> firstFrameRendered s then [TermRefresh 0 (int (termRows s) - 1)] else [])
      in (s\<lparr>guardrail := m, firstFrameRendered := True\<rparr>,
          truncation @ [TermWrite chunk] @ refresh))"

text \<open>The handler given to \<^verbatim>\<open>window.electronAPI.onPtyExit\<close> in \<^verbatim>\<open>connectPty\<close>.\<close>

definition onPtyExit :: "exit_info \<Rightarrow> session \<Rightarrow> session \<times> effect list" where
  "onPtyExit info s =
     (let s1 = s\<lparr>ptyStarted := False\<rparr>
      in (s1, MetricsRecordExit info # emitExit info s1))"

section \<open>Snapshots\<close>

text \<open>JavaScript truthiness of a number that may be missing: present and not zero.\<close>

definition truthyInt :: "int option \<Rightarrow> bool" where
  "truthyInt v = (case v of None \<Rightarrow> False | Some n \<Rightarrow> n \<noteq> 0)"

definition truthyNat :: "nat option \<Rightarrow> bool" where
  "truthyNat v = (case v of None \<Rightarrow> False | Some n \<Rightarrow> n \<noteq> 0)"

text \<open>The answer of \<^verbatim>\<open>window.electronAPI.ptyGetSnapshot\<close>: the function is missing,
  the call fails, or it resolves to a response (which may be null).\<close>

record response =
  ok :: bool
  snapshot :: "snapshot_payload option"

datatype get_snapshot = Unavailable | Rejected string | Resolved "response option"

text \<open>\<^verbatim>\<open>restoreSnapshot\<close>, given what the store answers.\<close>

definition restoreSnapshot :: "get_snapshot \<Rightarrow> session \<Rightarrow> session \<times> effect list" where
  "restoreSnapshot answer s =
     (case answer of
        Unavailable \<Rightarrow> (s, [])
      | Rejected err \<Rightarrow> (s, [PtyGetSnapshot, LogWarn ''terminalSession:snapshotRestoreFailed''])
      | Resolved None \<Rightarrow> (s, [PtyGetSnapshot])
      | Resolved (Some resp) \<Rightarrow>
          (case snapshot resp of
             None \<Rightarrow> (s, [PtyGetSnapshot])
           | Some snap \<Rightarrow>
               if \<not> ok resp \<or> data snap = [] then (s, [PtyGetSnapshot])
               else if truthyInt (version snap) \<and> version snap \<noteq> Some TERMINAL_SNAPSHOT_VERSION
               then (s, [PtyGetSnapshot, LogWarn ''terminalSession:snapshotIgnoredVersion''])
               else
                 (let written =
                        (if length (data snap) > 0 then [TermReset, TermWrite (data snap)] else [])
                  in if truthyNat (cols snap) \<and> truthyNat (rows snap)
                     then (let (s1, resized) =
                                 terminalResize (the (cols snap)) (the (rows snap)) s
                           in (s1, [PtyGetSnapshot] @ written @ resized))
                     else (s, [PtyGetSnapshot] @ written))))"

text \<open>
  \<^verbatim>\<open>captureSnapshot(reason)\<close> up to the first suspension. The three guards return a
  resolved promise and start nothing. Otherwise the task body runs at once:
  it serializes the buffer, gives up on an empty buffer when the reason is
  \<^verbatim>\<open>'detach'\<close>, and else issues the save and suspends. The task is then recorded as
  the pending one.
\<close>

definition captureSnapshot :: "reason \<Rightarrow> env \<Rightarrow> session \<Rightarrow> session \<times> effect list" where
  "captureSnapshot r e s =
     (if \<not> saveApi e then (s, [])
      else if disposed s then (s, [])
      else if r = Detach \<and> lastSnapshotReason s = Some Detach \<and> truthyInt (lastSnapshotAt s)
              \<and> clock e - the (lastSnapshotAt s) < 1500
      then (s, [])
      else
        (let (waits, body) =
               (case serialized e of
                  None \<Rightarrow> (False, [Serialize, LogWarn ''terminalSession:snapshotCaptureFailed''])
                | Some d \<Rightarrow>
                    if d = [] \<and> r = Detach then (False, [Serialize])
                    else (True,
                          [Serialize,
                           PtySaveSnapshot
                             \<lparr>version = Some TERMINAL_SNAPSHOT_VERSION,
                              createdAt = clock e,
                              cols = Some (termCols s),
                              rows = Some (termRows s),
                              data = d,
                              stats = Some (guardrail s, r)\<rparr>]));
             t = \<lparr>taskId = nextTask s, taskReason = r, awaiting = waits\<rparr>
         in (s\<lparr>tasks := tasks s @ [t],
                pendingSnapshot := Some (nextTask s),
                nextTask := nextTask s + 1\<rparr>,
             body)))"

text \<open>What the store answers to a save: \<^verbatim>\<open>{ok: true}\<close>, a result that is not ok, or
  a failure of the call.\<close>

datatype save_result = SaveOk | SaveNotOk | SaveThrew

fun findTask :: "nat \<Rightarrow> task list \<Rightarrow> task option" where
  "findTask n [] = None"
| "findTask n (t # ts) = (if taskId t = n then Some t else findTask n ts)"

text \<open>
  The rest of a capture task: the continuation behind the \<^verbatim>\<open>await\<close> (for a task
  that issued a save) and the \<^verbatim>\<open>finally\<close> callback, which clears the pending
  task when it is still this one and stamps the time and the reason. The two run in
  consecutive microtasks, so no other method of the session runs between them.
\<close>

definition completeSnapshot :: "nat \<Rightarrow> save_result \<Rightarrow> int \<Rightarrow> session \<Rightarrow> session \<times> effect list" where
  "completeSnapshot n res now s =
     (case findTask n (tasks s) of
        None \<Rightarrow> (s, [])
      | Some t \<Rightarrow>
          (let (m, logged) =
                 (if awaiting t
                  then (case res of
                          SaveOk \<Rightarrow> (markSnapshot (guardrail s), [MetricsMarkSnapshot])
                        | SaveNotOk \<Rightarrow> (guardrail s, [LogWarn ''Terminal snapshot save failed''])
                        | SaveThrew \<Rightarrow>
                            (guardrail s, [LogWarn ''terminalSession:snapshotCaptureFailed'']))
                  else (guardrail s, []))
           in (s\<lparr>guardrail := m,
                  tasks := filter (\<lambda>u. taskId u \<noteq> n) (tasks s),
                  pendingSnapshot :=
                    (if pendingSnapshot s = Some n then None else pendingSnapshot s),
                  lastSnapshotAt := Some now,
                  lastSnapshotReason := Some (taskReason t)\<rparr>,
               logged)))"

definition stopSnapshotTimer :: "session \<Rightarrow> session \<times> effect list" where
  "stopSnapshotTimer s =
     (if snapshotTimer s then (s\<lparr>snapshotTimer := False\<rparr>, [ClearInterval]) else (s, []))"

definition startSnapshotTimer :: "session \<Rightarrow> session \<times> effect list" where
  "startSnapshotTimer s =
     (let (s1, stopped) = stopSnapshotTimer s
      in (s1\<lparr>snapshotTimer := True\<rparr>, stopped @ [SetInterval]))"

text \<open>The callback of the timer.\<close>

definition onInterval :: "env \<Rightarrow> session \<Rightarrow> session \<times> effect list" where
  "onInterval e s = captureSnapshot Interval e s"

section \<open>Attach, detach, dispose\<close>

datatype error = AlreadyDisposed

definition sendSizeIfStarted :: "session \<Rightarrow> effect list" where
  "sendSizeIfStarted s =
     (if \<not> ptyStarted s \<or> disposed s then [] else [PtyResize (termCols s) (termRows s)])"

text \<open>
  \<^verbatim>\<open>detach()\<close>: nothing when no surface is attached. Otherwise the observer the field
  refers to is disconnected, the root element goes back under the host, the reference
  is cleared and a capture tagged \<^verbatim>\<open>'detach'\<close> is requested.
\<close>

definition detach :: "env \<Rightarrow> session \<Rightarrow> session \<times> effect list" where
  "detach e s =
     (case attachedContainer s of
        None \<Rightarrow> (s, [])
      | Some a \<Rightarrow>
          (let (obs, disconnected) =
                 (case resizeObserver s of
                    None \<Rightarrow> (observers s, [])
                  | Some c \<Rightarrow> (remove1 c (observers s), [ObserverDisconnect c]));
               s1 = s\<lparr>observers := obs, resizeObserver := None,
                      containerParent := Host, attachedContainer := None\<rparr>;
               (s2, captured) = captureSnapshot Detach e s1
           in (s2, disconnected @ [AppendChild Host] @ captured)))"

text \<open>
  \<^verbatim>\<open>attach(container)\<close>: throws on a disposed session, returns at once when the
  container is the attached one, and else detaches, moves the root element under the
  container, opens the terminal on the first attach, fits, sends the size, observes the
  container and asks for an animation frame.
\<close>

definition attach :: "container \<Rightarrow> env \<Rightarrow> session \<Rightarrow> error + session \<times> effect list" where
  "attach c e s =
     (if disposed s then Inl AlreadyDisposed
      else if attachedContainer s = Some c then Inr (s, [])
      else
        (let (s1, detached) = detach e s;
             s2 = s1\<lparr>containerParent := Surface c, attachedContainer := Some c\<rparr>;
             (s3, openedNow) =
               (if \<not> opened s2 then (s2\<lparr>opened := True\<rparr>, [TermOpen]) else (s2, []));
             sized = Fit # sendSizeIfStarted s3;
             s4 = s3\<lparr>resizeObserver := Some c, observers := c # observers s3\<rparr>
         in Inr (s4,
                 detached @ [AppendChild (Surface c)] @ openedNow @ sized @
                 [ObserverObserve c, RequestAnimationFrame])))"

text \<open>The callback given to \<^verbatim>\<open>requestAnimationFrame\<close> in \<^verbatim>\<open>attach\<close>.\<close>

definition onAnimationFrame :: "session \<Rightarrow> effect list" where
  "onAnimationFrame s = (if disposed s then [] else Fit # sendSizeIfStarted s)"

text \<open>The callback of the \<^verbatim>\<open>ResizeObserver\<close> made in \<^verbatim>\<open>attach\<close>.\<close>

definition onContainerResize :: "session \<Rightarrow> effect list" where
  "onContainerResize s = [Fit]"

text \<open>The loop of \<^verbatim>\<open>dispose\<close> over \<^verbatim>\<open>this.disposables.splice(0)\<close>.\<close>

primrec runDisposables :: "(cleanup \<Rightarrow> bool) \<Rightarrow> cleanup list \<Rightarrow> effect list" where
  "runDisposables fails [] = []"
| "runDisposables fails (d # ds) =
     (if fails d
      then [RunCleanup d, LogWarn ''Terminal session dispose callback failed'']
      else [RunCleanup d]) @ runDisposables fails ds"

text \<open>\<^verbatim>\<open>dispose()\<close>, statement by statement.\<close>

definition dispose :: "env \<Rightarrow> session \<Rightarrow> session \<times> effect list" where
  "dispose e s =
     (if disposed s then (s, [])
      else
        (let s1 = s\<lparr>disposed := True\<rparr>;
             (s2, detached) = detach e s1;
             (s3, stopped) = stopSnapshotTimer s2;
             (s4, captured) = captureSnapshot Dispose e s3;
             killed =
               (if killThrows e
                then [PtyKill, LogWarn ''Failed to kill PTY during dispose'']
                else [PtyKill]);
             cleaned = runDisposables (cleanupThrows e) (disposables s4);
             s5 = s4\<lparr>disposables := [],
                     activityListeners := [], readyListeners := [],
                     errorListeners := [], exitListeners := []\<rparr>
         in (s5,
             detached @ stopped @ captured @ killed @ cleaned @ [MetricsDispose, TermDispose])))"

section \<open>Construction and transport start\<close>

text \<open>
  The session as the constructor leaves it, for a terminal of the given size: the root
  element under the host, the two terminal subscriptions in \<^verbatim>\<open>disposables\<close>, the
  timer running.
\<close>

definition newSession :: "nat \<Rightarrow> nat \<Rightarrow> session" where
  "newSession c r =
     \<lparr>attachedContainer = None, resizeObserver = None, observers = [],
      containerParent = Host, disposables = [InputDisposable, ResizeDisposable],
      snapshotTimer = True, pendingSnapshot = None, disposed = False, opened = False,
      activityListeners = [], readyListeners = [], errorListeners = [], exitListeners = [],
      firstFrameRendered = False, ptyStarted = False,
      lastSnapshotAt = None, lastSnapshotReason = None,
      guardrail = \<lparr>bytesTracked = 0\<rparr>, termCols = c, termRows = r,
      tasks = [], nextTask = 0\<rparr>"

text \<open>The synchronous part of \<^verbatim>\<open>connectPty\<close>: the start request and the two
  subscriptions.\<close>

definition connectPty :: "session \<Rightarrow> session \<times> effect list" where
  "connectPty s = (s\<lparr>disposables := disposables s @ [OffData, OffExit]\<rparr>, [PtyStart])"

text \<open>What \<^verbatim>\<open>ptyStart\<close> answers: ok, not ok with a message (empty when there is
  none), or a rejection with its message. The optional \<^verbatim>\<open>onPtyStarted\<close>
  subscription is taken to exist, so its cleanup joins \<^verbatim>\<open>disposables\<close>.\<close>

datatype start_result = StartOk | StartFailed string | StartRejected string

definition onPtyStartResult :: "start_result \<Rightarrow> session \<Rightarrow> session \<times> effect list" where
  "onPtyStartResult res s =
     (case res of
        StartOk \<Rightarrow>
          (let s1 = s\<lparr>ptyStarted := True\<rparr>
           in (s1\<lparr>disposables := disposables s1 @ [OffStarted]\<rparr>,
               sendSizeIfStarted s1 @ emitReady s1))
      | StartFailed err \<Rightarrow>
          (let message = (if err \<noteq> [] then err else ''Failed to start PTY'')
           in (s, LogWarn ''terminalSession:ptyStartFailed'' # emitError message s))
      | StartRejected message \<Rightarrow>
          (s, LogError ''terminalSession:ptyStartError'' # emitError message s))"

section \<open>Sequences of calls\<close>

text \<open>A call of \<^verbatim>\<open>attach\<close> or \<^verbatim>\<open>detach\<close>, with what the surroundings answer
  during it.\<close>

datatype call = CallAttach container env | CallDetach env

definition step :: "call \<Rightarrow> session \<Rightarrow> error + session \<times> effect list" where
  "step c s =
     (case c of
        CallAttach k e \<Rightarrow> attach k e s
      | CallDetach e \<Rightarrow> Inr (detach e s))"

text \<open>The calls in order; the first exception ends the run.\<close>

fun run :: "call list \<Rightarrow> session \<Rightarrow> error + session \<times> effect list" where
  "run [] s = Inr (s, [])"
| "run (c # cs) s =
     (case step c s of
        Inl err \<Rightarrow> Inl err
      | Inr (s1, es1) \<Rightarrow>
          (case run cs s1 of
             Inl err \<Rightarrow> Inl err
           | Inr (s2, es2) \<Rightarrow> Inr (s2, es1 @ es2)))"

text \<open>
  The attachment is consistent: the root element sits under the attached surface (under
  the host when there is none), and the connected observers are exactly the one on the
  attached surface, which is the one the field refers to.
\<close>

definition attachedOnce :: "session \<Rightarrow> bool" where
  "attachedOnce s =
     (case attachedContainer s of
        None \<Rightarrow> containerParent s = Host \<and> observers s = [] \<and> resizeObserver s = None
      | Some c \<Rightarrow> containerParent s = Surface c \<and> observers s = [c] \<and> resizeObserver s = Some c)"

text \<open>Selections from an effect list.\<close>

definition isSave :: "effect \<Rightarrow> bool" where
  "isSave x = (case x of PtySaveSnapshot p \<Rightarrow> True | _ \<Rightarrow> False)"

definition isInput :: "effect \<Rightarrow> bool" where
  "isInput x = (case x of PtyInput d \<Rightarrow> True | _ \<Rightarrow> False)"

definition touchesTerminal :: "effect \<Rightarrow> bool" where
  "touchesTerminal x =
     (case x of
        TermWrite d \<Rightarrow> True
      | TermWriteln d \<Rightarrow> True
      | TermReset \<Rightarrow> True
      | TermClear \<Rightarrow> True
      | TermResize c r \<Rightarrow> True
      | _ \<Rightarrow> False)"

section \<open>Example inputs\<close>

text \<open>Concrete sessions and answers, used where a statement is evaluated.\<close>

definition exampleEnv :: env where
  "exampleEnv =
     \<lparr>clock = 5000, serialized = Some ''abc'', saveApi = True, killThrows = False,
      cleanupThrows = (\<lambda>d. False)\<rparr>"

text \<open>A session whose transport has started: constructed at 80 by 24, connected, start
  acknowledged.\<close>

definition startedSession :: session where
  "startedSession = fst (onPtyStartResult StartOk (fst (connectPty (newSession 80 24))))"

text \<open>The same session after \<^verbatim>\<open>attach\<close> to the surface 7.\<close>

definition attachedSession :: session where
  "attachedSession =
     (case attach 7 exampleEnv startedSession of
        Inr (s, es) \<Rightarrow> s
      | Inl err \<Rightarrow> startedSession)"

text \<open>The started session after one timer tick whose save has not been answered.\<close>

definition pendingSession :: session where
  "pendingSession = fst (onInterval exampleEnv startedSession)"

text \<open>A stored payload of version 0, and the store's answer that carries it.\<close>

definition versionZeroPayload :: snapshot_payload where
  "versionZeroPayload =
     \<lparr>version = Some 0, createdAt = 1000, cols = Some 100, rows = Some 30,
      data = ''old screen'', stats = None\<rparr>"

definition versionTwoPayload :: snapshot_payload where
  "versionTwoPayload = versionZeroPayload\<lparr>version := Some 2\<rparr>"

text \<open>The attached session after \<^verbatim>\<open>detach\<close>: its capture tagged detach is in flight.\<close>

definition detachingSession :: session where
  "detachingSession = fst (detach exampleEnv attachedSession)"

definition threeListeners :: session where
  "threeListeners =
     registerActivityListener (Listener 3 False)
       (registerActivityListener (Listener 2 True)
          (registerActivityListener (Listener 1 False) startedSession))"

section \<open>Basic facts\<close>

lemma invoked_append: "invoked (xs @ ys) = invoked xs @ invoked ys"
  by (induction xs rule: invoked.induct) simp_all

lemma invoked_fanOut: "invoked (fanOut ev msg ls) = ls"
  by (induction ls) (simp_all add: invoked_append)

lemma captureSnapshot_cases:
  "captureSnapshot r e s = (s, []) \<or>
   (\<exists>w body. captureSnapshot r e s =
      (s\<lparr>tasks := tasks s @ [\<lparr>taskId = nextTask s, taskReason = r, awaiting = w\<rparr>],
         pendingSnapshot := Some (nextTask s),
         nextTask := nextTask s + 1\<rparr>, body))"
  by (auto simp: captureSnapshot_def Let_def split: option.splits)

lemma captureSnapshot_disposed_skip: "disposed s \<Longrightarrow> captureSnapshot r e s = (s, [])"
  by (simp add: captureSnapshot_def)

lemma captureSnapshot_keeps:
  "disposed (fst (captureSnapshot r e s)) = disposed s"
  "attachedContainer (fst (captureSnapshot r e s)) = attachedContainer s"
  "observers (fst (captureSnapshot r e s)) = observers s"
  "resizeObserver (fst (captureSnapshot r e s)) = resizeObserver s"
  "containerParent (fst (captureSnapshot r e s)) = containerParent s"
  "opened (fst (captureSnapshot r e s)) = opened s"
  using captureSnapshot_cases [of r e s] by auto

lemma detach_unattached: "attachedContainer s = None \<Longrightarrow> detach e s = (s, [])"
  by (simp add: detach_def)

lemma detach_disposed: "disposed (fst (detach e s)) = disposed s"
  by (cases "attachedContainer s")
     (simp_all add: detach_def Let_def split_beta captureSnapshot_keeps split: option.splits)

lemma detach_clears: "attachedContainer (fst (detach e s)) = None"
  by (cases "attachedContainer s")
     (simp_all add: detach_def Let_def split_beta captureSnapshot_keeps split: option.splits)

lemma detach_attachedOnce: "attachedOnce s \<Longrightarrow> attachedOnce (fst (detach e s))"
  by (cases "attachedContainer s")
     (auto simp: attachedOnce_def detach_def Let_def split_beta captureSnapshot_keeps
           split: option.splits)

lemma stopSnapshotTimer_disposed: "disposed (fst (stopSnapshotTimer s)) = disposed s"
  by (simp add: stopSnapshotTimer_def)

lemma dispose_disposed: "disposed (fst (dispose e s))"
  by (simp add: dispose_def Let_def split_beta captureSnapshot_keeps detach_disposed
        stopSnapshotTimer_disposed)

lemma startedSession_value:
  "startedSession =
     \<lparr>attachedContainer = None, resizeObserver = None, observers = [],
      containerParent = Host,
      disposables = [InputDisposable, ResizeDisposable, OffData, OffExit, OffStarted],
      snapshotTimer = True, pendingSnapshot = None, disposed = False, opened = False,
      activityListeners = [], readyListeners = [], errorListeners = [], exitListeners = [],
      firstFrameRendered = False, ptyStarted = True,
      lastSnapshotAt = None, lastSnapshotReason = None,
      guardrail = \<lparr>bytesTracked = 0\<rparr>, termCols = 80, termRows = 24,
      tasks = [], nextTask = 0\<rparr>"
  by (simp add: startedSession_def onPtyStartResult_def connectPty_def newSession_def Let_def)

lemma attachedSession_value:
  "attachedSession =
     startedSession\<lparr>attachedContainer := Some 7, resizeObserver := Some 7, observers := [7],
                    containerParent := Surface 7, opened := True\<rparr>"
  by (simp add: attachedSession_def attach_def detach_def startedSession_value Let_def)

lemma threeListeners_value:
  "threeListeners =
     startedSession\<lparr>activityListeners := [Listener 1 False, Listener 2 True, Listener 3 False]\<rparr>"
  by (simp add: threeListeners_def registerActivityListener_def setAdd_def startedSession_value)

lemma filterFocus_append_report:
  assumes "p = focusIn \<or> p = focusOut"
  shows "filterFocus (a @ p @ b) = filterFocus a @ filterFocus b"
  using assms
  by (induction a rule: filterFocus.induct) (auto simp: focusIn_def focusOut_def ESC_def)

lemma filterFocus_no_report:
  "\<forall>a b. input \<noteq> a @ focusIn @ b \<and> input \<noteq> a @ focusOut @ b \<Longrightarrow> filterFocus input = input"
proof (induction input rule: filterFocus.induct)
  case (1 x y z rest)
  have nomatch: "\<not> (x = ESC \<and> y = CHR ''['' \<and> (z = CHR ''I'' \<or> z = CHR ''O''))"
  proof
    assume m: "x = ESC \<and> y = CHR ''['' \<and> (z = CHR ''I'' \<or> z = CHR ''O'')"
    then have "x # y # z # rest = [] @ focusIn @ rest \<or> x # y # z # rest = [] @ focusOut @ rest"
      by (auto simp: focusIn_def focusOut_def)
    with "1.prems" show False by blast
  qed
  have tail: "\<forall>a b. y # z # rest \<noteq> a @ focusIn @ b \<and> y # z # rest \<noteq> a @ focusOut @ b"
  proof (intro allI conjI notI)
    fix a b assume "y # z # rest = a @ focusIn @ b"
    then have "x # y # z # rest = (x # a) @ focusIn @ b" by simp
    with "1.prems" show False by blast
  next
    fix a b assume "y # z # rest = a @ focusOut @ b"
    then have "x # y # z # rest = (x # a) @ focusOut @ b" by simp
    with "1.prems" show False by blast
  qed
  from nomatch have "filterFocus (x # y # z # rest) = x # filterFocus (y # z # rest)"
    by auto
  moreover from "1.IH"(2) [OF nomatch tail] have "filterFocus (y # z # rest) = y # z # rest" .
  ultimately show ?case by simp
qed simp_all

section \<open>Listener fan-out\<close>

text \<open>
  C8. On each of the four channels, emitting calls every registered listener, once and
  in registration order, whichever of them throw: a listener that throws is followed
  by a logged warning and the loop goes on with the next one. The emit functions
  return only the list of calls made; no exception leaves them.
\<close>

theorem emit_reaches_every_listener:
  "invoked (emitActivity s) = activityListeners s
   \<and> invoked (emitReady s) = readyListeners s
   \<and> invoked (emitError message s) = errorListeners s
   \<and> invoked (emitExit info s) = exitListeners s"
  by (simp add: emitActivity_def emitReady_def emitError_def emitExit_def invoked_fanOut)

text \<open>Three listeners, the second throws: all three are called.\<close>

theorem emit_reaches_every_listener_witness:
  "invoked (emitActivity threeListeners) = [Listener 1 False, Listener 2 True, Listener 3 False]
   \<and> emitActivity threeListeners =
       [Notify ActivityEvent (Listener 1 False),
        Notify ActivityEvent (Listener 2 True),
        LogWarn ''Terminal activity listener failed'',
        Notify ActivityEvent (Listener 3 False)]"
proof -
  have regs: "activityListeners threeListeners =
      [Listener 1 False, Listener 2 True, Listener 3 False]"
    by (simp add: threeListeners_value)
  from emit_reaches_every_listener [of threeListeners]
  have "invoked (emitActivity threeListeners) = activityListeners threeListeners" by simp
  with regs show ?thesis by (simp add: emitActivity_def)
qed

section \<open>Dispose\<close>

lemma no_save_in_runDisposables: "filter isSave (runDisposables fails ds) = []"
  by (induction ds) (simp_all add: isSave_def)

lemma detach_disposed_effects:
  "disposed s \<Longrightarrow> filter isSave (snd (detach e s)) = [] \<and> tasks (fst (detach e s)) = tasks s"
  by (cases "attachedContainer s")
     (simp_all add: detach_def Let_def split_beta captureSnapshot_disposed_skip isSave_def
           split: option.splits)

lemma dispose_never_saves:
  "filter isSave (snd (dispose e s)) = [] \<and> tasks (fst (dispose e s)) = tasks s"
proof (cases "disposed s")
  case True
  then show ?thesis by (simp add: dispose_def)
next
  case False
  let ?s1 = "s\<lparr>disposed := True\<rparr>"
  have d: "disposed ?s1" by simp
  have d2: "disposed (fst (detach e ?s1))" using d by (simp add: detach_disposed)
  have d3: "disposed (fst (stopSnapshotTimer (fst (detach e ?s1))))"
    using d2 by (simp add: stopSnapshotTimer_disposed)
  have t3: "tasks (fst (stopSnapshotTimer (fst (detach e ?s1)))) = tasks s"
    using detach_disposed_effects [OF d, of e] by (simp add: stopSnapshotTimer_def)
  have e3: "filter isSave (snd (stopSnapshotTimer (fst (detach e ?s1)))) = []"
    by (simp add: stopSnapshotTimer_def isSave_def)
  from False show ?thesis
    using detach_disposed_effects [OF d, of e] d3 t3 e3
    by (simp add: dispose_def Let_def split_beta captureSnapshot_disposed_skip
          no_save_in_runDisposables isSave_def)
qed

text \<open>
  C6. A second call of dispose changes nothing and calls nothing: on the session the
  first call left, dispose returns that session and the empty list of effects (no
  listener call, no capture, no kill), whatever the surroundings answer.
\<close>

theorem dispose_twice_is_dispose_once:
  "dispose e2 (fst (dispose e1 s)) = (fst (dispose e1 s), [])"
  using dispose_disposed [of e1 s] by (simp add: dispose_def [of e2])

theorem dispose_twice_is_dispose_once_witness:
  "dispose exampleEnv (fst (dispose exampleEnv attachedSession)) =
     (fst (dispose exampleEnv attachedSession), [])
   \<and> snd (dispose exampleEnv attachedSession) \<noteq> []"
proof -
  have "snd (dispose exampleEnv attachedSession) \<noteq> []"
    by (simp add: dispose_def attachedSession_value startedSession_value detach_def
          exampleEnv_def captureSnapshot_def stopSnapshotTimer_def Let_def)
  with dispose_twice_is_dispose_once [of exampleEnv exampleEnv attachedSession]
  show ?thesis by simp
qed

text \<open>
  C1, evaluated at a session attached to a surface, with the snapshot store present and
  a non-empty buffer. dispose sets the disposed flag first, so both captures it
  requests (the one of detach and the one tagged dispose) return at the disposed guard:
  no save is issued and no task is started (for every session and every answer of
  the surroundings, by the lemma above). The kill is requested and the four
  registries are empty afterwards.
\<close>

theorem dispose_attached_saves_nothing:
  "attachedContainer attachedSession = Some 7
   \<and> saveApi exampleEnv
   \<and> snd (dispose exampleEnv attachedSession) =
       [ObserverDisconnect 7, AppendChild Host, ClearInterval, PtyKill,
        RunCleanup InputDisposable, RunCleanup ResizeDisposable, RunCleanup OffData,
        RunCleanup OffExit, RunCleanup OffStarted, MetricsDispose, TermDispose]
   \<and> filter isSave (snd (dispose exampleEnv attachedSession)) = []
   \<and> tasks (fst (dispose exampleEnv attachedSession)) = []
   \<and> activityListeners (fst (dispose exampleEnv attachedSession)) = []
   \<and> readyListeners (fst (dispose exampleEnv attachedSession)) = []
   \<and> errorListeners (fst (dispose exampleEnv attachedSession)) = []
   \<and> exitListeners (fst (dispose exampleEnv attachedSession)) = []"
  by (simp add: dispose_def attachedSession_value startedSession_value detach_def
        exampleEnv_def captureSnapshot_def stopSnapshotTimer_def Let_def isSave_def)

section \<open>User input\<close>

text \<open>
  C10. On a session that is not disposed, the input handler first calls every activity
  listener and then forwards the filtered input, or nothing when the filtered input
  is empty. The filter deletes every occurrence of ESC [ I and of ESC [ O in the
  input: wherever one stands, the result is the filtered text before it followed by
  the filtered text behind it; an input that holds neither sequence is forwarded
  unchanged.
\<close>

theorem focus_reports_removed_before_forwarding:
  assumes "\<not> disposed s"
  shows "onData input s =
           emitActivity s @
           (if filterFocus input = [] then [] else [PtyInput (filterFocus input)])
         \<and> invoked (onData input s) = activityListeners s
         \<and> filterFocus (a @ focusIn @ b) = filterFocus a @ filterFocus b
         \<and> filterFocus (a @ focusOut @ b) = filterFocus a @ filterFocus b
         \<and> ((\<forall>u v. input \<noteq> u @ focusIn @ v \<and> input \<noteq> u @ focusOut @ v)
              \<longrightarrow> filterFocus input = input)"
proof -
  have fwd: "onData input s =
      emitActivity s @ (if filterFocus input = [] then [] else [PtyInput (filterFocus input)])"
    using assms by (simp add: onData_def Let_def)
  have "invoked (emitActivity s) = activityListeners s"
    by (simp add: emitActivity_def invoked_fanOut)
  then have inv: "invoked (onData input s) = activityListeners s"
    by (simp add: fwd invoked_append)
  from fwd inv show ?thesis
    by (simp add: filterFocus_append_report filterFocus_no_report)
qed

theorem focus_reports_removed_before_forwarding_witness:
  "\<not> disposed threeListeners
   \<and> onData (''ls'' @ focusIn @ ''x'') threeListeners =
       emitActivity threeListeners @ [PtyInput ''lsx'']
   \<and> onData (focusIn @ focusOut) threeListeners = emitActivity threeListeners
   \<and> invoked (onData (focusIn @ focusOut) threeListeners) =
       [Listener 1 False, Listener 2 True, Listener 3 False]"
proof -
  have live: "\<not> disposed threeListeners"
    by (simp add: threeListeners_value startedSession_value)
  have regs: "activityListeners threeListeners =
      [Listener 1 False, Listener 2 True, Listener 3 False]"
    by (simp add: threeListeners_value)
  have f1: "filterFocus (''ls'' @ focusIn @ ''x'') = ''lsx''"
    by (simp add: focusIn_def)
  have f2: "filterFocus (focusIn @ focusOut) = []"
    by (simp add: focusIn_def focusOut_def)
  note t1 = focus_reports_removed_before_forwarding
      [OF live, of "''ls'' @ focusIn @ ''x''" "[]" "[]", THEN conjunct1]
  note t2 = focus_reports_removed_before_forwarding
      [OF live, of "focusIn @ focusOut" "[]" "[]"]
  have a: "onData (''ls'' @ focusIn @ ''x'') threeListeners =
      emitActivity threeListeners @ [PtyInput ''lsx'']"
    using t1 unfolding f1 by simp
  have b: "onData (focusIn @ focusOut) threeListeners = emitActivity threeListeners"
    using t2 [THEN conjunct1] unfolding f2 by simp
  have c: "invoked (onData (focusIn @ focusOut) threeListeners) = activityListeners threeListeners"
    using t2 [THEN conjunct2, THEN conjunct1] .
  from live a b c regs show ?thesis by simp
qed

text \<open>
  The text that is left is not scanned again: a sequence that only arises by joining
  the text around a deleted occurrence stays.
\<close>

lemma filterFocus_single_pass: "filterFocus (ESC # focusIn @ ''[I'') = focusIn"
  by (simp add: focusIn_def ESC_def)

section \<open>Restoring a snapshot\<close>

text \<open>
  C2 as stated fails at version 0: the version test is
  \<^verbatim>\<open>snapshot.version && snapshot.version !== TERMINAL_SNAPSHOT_VERSION\<close>, and 0 is
  falsy, so a payload of version 0 is written to the terminal and the terminal is
  resized to the stored size (which the resize handler forwards to the transport).
\<close>

theorem restore_version_zero_not_discarded:
  "version versionZeroPayload = Some 0
   \<and> TERMINAL_SNAPSHOT_VERSION = 1
   \<and> restoreSnapshot (Resolved (Some \<lparr>ok = True, snapshot = Some versionZeroPayload\<rparr>))
         startedSession =
       (startedSession\<lparr>termCols := 100, termRows := 30\<rparr>,
        [PtyGetSnapshot, TermReset, TermWrite ''old screen'', TermResize 100 30,
         PtyResize 100 30])"
  by (simp add: restoreSnapshot_def terminalResize_def onResize_def versionZeroPayload_def
        TERMINAL_SNAPSHOT_VERSION_def truthyInt_def truthyNat_def startedSession_value Let_def)

text \<open>
  C2, amended. A stored payload whose version is present, not zero and different from
  the current version is discarded: the session is unchanged and the terminal is
  neither written, reset nor resized; restoreSnapshot returns normally. A payload
  whose version is zero or missing is not subject to the version test: when the
  response is ok and the data is not empty, the terminal is reset and the data
  written; after that \<^verbatim>\<open>terminal.resize\<close> is called with the stored size when the
  stored columns and rows are both present and not zero, and nothing more is done when
  they are not.
\<close>

theorem restore_discards_other_nonzero_version:
  assumes "snapshot resp = Some p"
  shows "(version p = Some v \<and> v \<noteq> 0 \<and> v \<noteq> TERMINAL_SNAPSHOT_VERSION \<longrightarrow>
            fst (restoreSnapshot (Resolved (Some resp)) s) = s
            \<and> filter touchesTerminal (snd (restoreSnapshot (Resolved (Some resp)) s)) = [])
         \<and> (\<not> truthyInt (version p) \<and> ok resp \<and> data p \<noteq> [] \<longrightarrow>
              take 3 (snd (restoreSnapshot (Resolved (Some resp)) s)) =
                [PtyGetSnapshot, TermReset, TermWrite (data p)])
         \<and> (\<not> truthyInt (version p) \<and> ok resp \<and> data p \<noteq> []
              \<and> truthyNat (cols p) \<and> truthyNat (rows p) \<longrightarrow>
              take 4 (snd (restoreSnapshot (Resolved (Some resp)) s)) =
                [PtyGetSnapshot, TermReset, TermWrite (data p),
                 TermResize (the (cols p)) (the (rows p))])
         \<and> (\<not> truthyInt (version p) \<and> ok resp \<and> data p \<noteq> []
              \<and> \<not> (truthyNat (cols p) \<and> truthyNat (rows p)) \<longrightarrow>
              restoreSnapshot (Resolved (Some resp)) s =
                (s, [PtyGetSnapshot, TermReset, TermWrite (data p)]))"
proof -
  have discard: "version p = Some v \<and> v \<noteq> 0 \<and> v \<noteq> TERMINAL_SNAPSHOT_VERSION \<longrightarrow>
            fst (restoreSnapshot (Resolved (Some resp)) s) = s
            \<and> filter touchesTerminal (snd (restoreSnapshot (Resolved (Some resp)) s)) = []"
    using assms by (simp add: restoreSnapshot_def truthyInt_def touchesTerminal_def Let_def)
  have written: "\<not> truthyInt (version p) \<and> ok resp \<and> data p \<noteq> [] \<longrightarrow>
              take 3 (snd (restoreSnapshot (Resolved (Some resp)) s)) =
                [PtyGetSnapshot, TermReset, TermWrite (data p)]"
    using assms by (simp add: restoreSnapshot_def Let_def split_beta)
  have resized: "\<not> truthyInt (version p) \<and> ok resp \<and> data p \<noteq> []
              \<and> truthyNat (cols p) \<and> truthyNat (rows p) \<longrightarrow>
              take 4 (snd (restoreSnapshot (Resolved (Some resp)) s)) =
                [PtyGetSnapshot, TermReset, TermWrite (data p),
                 TermResize (the (cols p)) (the (rows p))]"
    using assms by (simp add: restoreSnapshot_def terminalResize_def Let_def split_beta)
  have unsized: "\<not> truthyInt (version p) \<and> ok resp \<and> data p \<noteq> []
              \<and> \<not> (truthyNat (cols p) \<and> truthyNat (rows p)) \<longrightarrow>
              restoreSnapshot (Resolved (Some resp)) s =
                (s, [PtyGetSnapshot, TermReset, TermWrite (data p)])"
    using assms by (auto simp: restoreSnapshot_def Let_def)
  from discard written resized unsized show ?thesis by blast
qed

theorem restore_discards_other_nonzero_version_witness:
  "snapshot \<lparr>ok = True, snapshot = Some versionTwoPayload\<rparr> = Some versionTwoPayload
   \<and> version versionTwoPayload = Some 2
   \<and> (2::int) \<noteq> 0 \<and> 2 \<noteq> TERMINAL_SNAPSHOT_VERSION
   \<and> restoreSnapshot (Resolved (Some \<lparr>ok = True, snapshot = Some versionTwoPayload\<rparr>))
         startedSession =
       (startedSession, [PtyGetSnapshot, LogWarn ''terminalSession:snapshotIgnoredVersion''])
   \<and> fst (restoreSnapshot (Resolved (Some \<lparr>ok = True, snapshot = Some versionTwoPayload\<rparr>))
         startedSession) = startedSession
   \<and> \<not> truthyInt (version versionZeroPayload)
   \<and> data versionZeroPayload \<noteq> []
   \<and> truthyNat (cols versionZeroPayload) \<and> truthyNat (rows versionZeroPayload)
   \<and> take 4 (snd (restoreSnapshot
         (Resolved (Some \<lparr>ok = True, snapshot = Some versionZeroPayload\<rparr>)) startedSession)) =
       [PtyGetSnapshot, TermReset, TermWrite ''old screen'', TermResize 100 30]"
proof -
  have h: "snapshot \<lparr>ok = True, snapshot = Some versionTwoPayload\<rparr> = Some versionTwoPayload"
    by simp
  have v: "version versionTwoPayload = Some 2 \<and> (2::int) \<noteq> 0 \<and> 2 \<noteq> TERMINAL_SNAPSHOT_VERSION"
    by (simp add: versionTwoPayload_def versionZeroPayload_def TERMINAL_SNAPSHOT_VERSION_def)
  from restore_discards_other_nonzero_version [OF h, of 2 startedSession] v
  have kept: "fst (restoreSnapshot
      (Resolved (Some \<lparr>ok = True, snapshot = Some versionTwoPayload\<rparr>)) startedSession) =
      startedSession"
    by blast
  have run: "restoreSnapshot
      (Resolved (Some \<lparr>ok = True, snapshot = Some versionTwoPayload\<rparr>)) startedSession =
      (startedSession, [PtyGetSnapshot, LogWarn ''terminalSession:snapshotIgnoredVersion''])"
    by (simp add: restoreSnapshot_def versionTwoPayload_def versionZeroPayload_def
          TERMINAL_SNAPSHOT_VERSION_def truthyInt_def)
  have h0: "snapshot \<lparr>ok = True, snapshot = Some versionZeroPayload\<rparr> = Some versionZeroPayload"
    by simp
  have z: "\<not> truthyInt (version versionZeroPayload)
      \<and> ok \<lparr>ok = True, snapshot = Some versionZeroPayload\<rparr>
      \<and> data versionZeroPayload \<noteq> []
      \<and> truthyNat (cols versionZeroPayload) \<and> truthyNat (rows versionZeroPayload)"
    by (simp add: versionZeroPayload_def truthyInt_def truthyNat_def)
  have sz: "the (cols versionZeroPayload) = 100" "the (rows versionZeroPayload) = 30"
    "data versionZeroPayload = ''old screen''"
    by (simp_all add: versionZeroPayload_def)
  from restore_discards_other_nonzero_version [OF h0, of 0 startedSession] z
  have "take 4 (snd (restoreSnapshot
         (Resolved (Some \<lparr>ok = True, snapshot = Some versionZeroPayload\<rparr>)) startedSession)) =
       [PtyGetSnapshot, TermReset, TermWrite (data versionZeroPayload),
        TermResize (the (cols versionZeroPayload)) (the (rows versionZeroPayload))]"
    by blast
  then have restored: "take 4 (snd (restoreSnapshot
         (Resolved (Some \<lparr>ok = True, snapshot = Some versionZeroPayload\<rparr>)) startedSession)) =
       [PtyGetSnapshot, TermReset, TermWrite ''old screen'', TermResize 100 30]"
    by (simp only: sz)
  from h v kept run z restored show ?thesis by blast
qed

section \<open>Input after the transport has exited\<close>

lemma no_input_in_fanOut: "filter isInput (fanOut ev msg ls) = []"
  by (induction ls) (simp_all add: isInput_def)

text \<open>
  C4 as stated fails: the input handler tests only the disposed flag. After the exit
  event of a session that is not disposed, typed input is still written to the
  transport.
\<close>

theorem input_after_exit_still_forwarded:
  "\<not> ptyStarted (fst (onPtyExit \<lparr>exitCode = Some 0, signal = None\<rparr> startedSession))
   \<and> onData ''ls'' (fst (onPtyExit \<lparr>exitCode = Some 0, signal = None\<rparr> startedSession)) =
       [PtyInput ''ls'']"
  by (simp add: onPtyExit_def onData_def emitActivity_def startedSession_value Let_def)

text \<open>
  C4, amended. The exit event clears \<^verbatim>\<open>ptyStarted\<close> and calls the exit listeners, and
  leaves input forwarding as it was: before and after it, a terminal data event writes
  the filtered input to the transport exactly when the session is not disposed and the
  filtered input is not empty. On a disposed session no input is written.
\<close>

theorem input_forwarding_gated_by_disposed_only:
  "filter isInput (onData input (fst (onPtyExit info s))) =
     (if disposed s \<or> filterFocus input = [] then [] else [PtyInput (filterFocus input)])
   \<and> filter isInput (onData input s) =
     (if disposed s \<or> filterFocus input = [] then [] else [PtyInput (filterFocus input)])
   \<and> invoked (snd (onPtyExit info s)) = exitListeners s
   \<and> \<not> ptyStarted (fst (onPtyExit info s))"
  by (simp add: onPtyExit_def onData_def emitActivity_def emitExit_def no_input_in_fanOut
        invoked_fanOut Let_def isInput_def)

theorem input_forwarding_gated_by_disposed_only_witness:
  "filter isInput
     (onData ''ls'' (fst (onPtyExit \<lparr>exitCode = Some 0, signal = None\<rparr> startedSession))) =
     [PtyInput ''ls'']
   \<and> filter isInput
     (onData ''ls'' (fst (onPtyExit \<lparr>exitCode = Some 0, signal = None\<rparr>
        (fst (dispose exampleEnv startedSession))))) = []"
proof -
  have live: "\<not> disposed startedSession" by (simp add: startedSession_value)
  have f: "filterFocus ''ls'' = ''ls''" by simp
  note t = input_forwarding_gated_by_disposed_only [THEN conjunct1]
  have a: "filter isInput
     (onData ''ls'' (fst (onPtyExit \<lparr>exitCode = Some 0, signal = None\<rparr> startedSession))) =
     [PtyInput ''ls'']"
    using live by (simp only: t f) simp
  have b: "filter isInput
     (onData ''ls'' (fst (onPtyExit \<lparr>exitCode = Some 0, signal = None\<rparr>
        (fst (dispose exampleEnv startedSession))))) = []"
    using dispose_disposed [of exampleEnv startedSession] by (simp only: t) simp
  from a b show ?thesis by simp
qed

section \<open>Memory guardrail\<close>

text \<open>
  The data handler, whatever guardrail is plugged in: when \<^verbatim>\<open>canAccept\<close> answers
  false the handler clears the buffer, writes exactly one notice line and then writes
  the chunk; when it answers true it only writes the chunk. The handler leaves the
  guardrail as \<^verbatim>\<open>canAccept\<close> returned it and makes no reset call of its own, so what
  the byte counter is after a rejection, and whether the next chunk is rejected again,
  is decided inside \<^verbatim>\<open>TerminalMetrics\<close>, which is not part of the sources.
\<close>

lemma onPtyData_truncation:
  "filter touchesTerminal (snd (onPtyData accept chunk s)) =
     (if fst (accept (guardrail s) chunk) then [TermWrite chunk]
      else [TermClear, TermWriteln sentinel, TermWrite chunk])
   \<and> guardrail (fst (onPtyData accept chunk s)) = snd (accept (guardrail s) chunk)"
  by (simp add: onPtyData_def touchesTerminal_def Let_def split_beta)

section \<open>Capture tasks\<close>

lemma pendingSession_value:
  "pendingSession =
     startedSession\<lparr>tasks := [\<lparr>taskId = 0, taskReason = Interval, awaiting = True\<rparr>],
                    pendingSnapshot := Some 0, nextTask := 1\<rparr>"
  by (simp add: pendingSession_def onInterval_def captureSnapshot_def exampleEnv_def
        startedSession_value Let_def)

lemma captureSnapshot_started:
  assumes "saveApi e" and "\<not> disposed s"
    and "\<not> (r = Detach \<and> lastSnapshotReason s = Some Detach \<and> truthyInt (lastSnapshotAt s)
            \<and> clock e - the (lastSnapshotAt s) < 1500)"
  shows "\<exists>w body. captureSnapshot r e s =
      (s\<lparr>tasks := tasks s @ [\<lparr>taskId = nextTask s, taskReason = r, awaiting = w\<rparr>],
         pendingSnapshot := Some (nextTask s),
         nextTask := nextTask s + 1\<rparr>, body)"
  using assms by (auto simp: captureSnapshot_def Let_def split: option.splits)

lemma captureSnapshot_saves:
  assumes "saveApi e" and "\<not> disposed s"
    and "\<not> (r = Detach \<and> lastSnapshotReason s = Some Detach \<and> truthyInt (lastSnapshotAt s)
            \<and> clock e - the (lastSnapshotAt s) < 1500)"
    and "serialized e = Some d" and "d \<noteq> []"
  shows "length (filter isSave (snd (captureSnapshot r e s))) = 1"
  using assms by (auto simp: captureSnapshot_def Let_def isSave_def)

lemma completeSnapshot_found:
  assumes "findTask n (tasks s) = Some t"
  shows "tasks (fst (completeSnapshot n res now s)) = filter (\<lambda>u. taskId u \<noteq> n) (tasks s)"
    and "pendingSnapshot (fst (completeSnapshot n res now s)) =
           (if pendingSnapshot s = Some n then None else pendingSnapshot s)"
    and "lastSnapshotAt (fst (completeSnapshot n res now s)) = Some now"
    and "lastSnapshotReason (fst (completeSnapshot n res now s)) = Some (taskReason t)"
    and "disposed (fst (completeSnapshot n res now s)) = disposed s"
    and "nextTask (fst (completeSnapshot n res now s)) = nextTask s"
  using assms by (simp_all add: completeSnapshot_def Let_def split_beta)

text \<open>
  C3 as stated fails: \<^verbatim>\<open>captureSnapshot\<close> never reads \<^verbatim>\<open>pendingSnapshot\<close> before it
  starts a task. With the task of one timer tick still waiting for the store, the next
  tick starts a second task and issues a second save: two tasks are in flight.
\<close>

theorem second_capture_started_while_first_pending:
  "pendingSnapshot pendingSession = Some 0
   \<and> findTask 0 (tasks pendingSession) =
       Some \<lparr>taskId = 0, taskReason = Interval, awaiting = True\<rparr>
   \<and> tasks (fst (onInterval exampleEnv pendingSession)) =
       [\<lparr>taskId = 0, taskReason = Interval, awaiting = True\<rparr>,
        \<lparr>taskId = 1, taskReason = Interval, awaiting = True\<rparr>]
   \<and> length (filter isSave (snd (onInterval exampleEnv pendingSession))) = 1"
  by (simp add: pendingSession_value onInterval_def captureSnapshot_def exampleEnv_def
        startedSession_value Let_def isSave_def)

text \<open>
  C3, amended. A capture that passes the three guards (store present, session not
  disposed, not debounced) always starts a new task, whether or not an earlier task
  is unresolved: the tasks in flight grow by the new one, which becomes the recorded
  pending task. The earlier tasks stay in flight; a task that completes leaves the
  set of tasks in flight and clears the pending record only when the record is still
  this task.
\<close>

theorem capture_starts_whether_or_not_one_is_pending:
  assumes "saveApi e" and "\<not> disposed s"
    and "\<not> (r = Detach \<and> lastSnapshotReason s = Some Detach \<and> truthyInt (lastSnapshotAt s)
            \<and> clock e - the (lastSnapshotAt s) < 1500)"
  shows "(\<exists>w. tasks (fst (captureSnapshot r e s)) =
              tasks s @ [\<lparr>taskId = nextTask s, taskReason = r, awaiting = w\<rparr>])
         \<and> pendingSnapshot (fst (captureSnapshot r e s)) = Some (nextTask s)
         \<and> (findTask n (tasks s) = Some t \<longrightarrow>
              tasks (fst (completeSnapshot n res now s)) =
                filter (\<lambda>u. taskId u \<noteq> n) (tasks s)
              \<and> pendingSnapshot (fst (completeSnapshot n res now s)) =
                (if pendingSnapshot s = Some n then None else pendingSnapshot s))"
proof -
  from captureSnapshot_started [OF assms] obtain w body where
    "captureSnapshot r e s =
      (s\<lparr>tasks := tasks s @ [\<lparr>taskId = nextTask s, taskReason = r, awaiting = w\<rparr>],
         pendingSnapshot := Some (nextTask s),
         nextTask := nextTask s + 1\<rparr>, body)"
    by blast
  then have "tasks (fst (captureSnapshot r e s)) =
        tasks s @ [\<lparr>taskId = nextTask s, taskReason = r, awaiting = w\<rparr>]"
    and "pendingSnapshot (fst (captureSnapshot r e s)) = Some (nextTask s)"
    by simp_all
  then show ?thesis
    using completeSnapshot_found(1,2) [of n s t res now] by blast
qed

theorem capture_starts_whether_or_not_one_is_pending_witness:
  "saveApi exampleEnv \<and> \<not> disposed pendingSession
   \<and> pendingSnapshot pendingSession = Some 0
   \<and> length (tasks (fst (captureSnapshot Interval exampleEnv pendingSession))) = 2
   \<and> pendingSnapshot (fst (captureSnapshot Interval exampleEnv pendingSession)) = Some 1
   \<and> tasks (fst (completeSnapshot 0 SaveOk 6000 pendingSession)) = []
   \<and> pendingSnapshot (fst (completeSnapshot 0 SaveOk 6000 pendingSession)) = None"
proof -
  have h1: "saveApi exampleEnv" by (simp add: exampleEnv_def)
  have h2: "\<not> disposed pendingSession"
    by (simp add: pendingSession_value startedSession_value)
  have h3: "\<not> (Interval = Detach \<and> lastSnapshotReason pendingSession = Some Detach
            \<and> truthyInt (lastSnapshotAt pendingSession)
            \<and> clock exampleEnv - the (lastSnapshotAt pendingSession) < 1500)"
    by simp
  have f: "findTask 0 (tasks pendingSession) =
      Some \<lparr>taskId = 0, taskReason = Interval, awaiting = True\<rparr>"
    by (simp add: pendingSession_value)
  have p: "pendingSnapshot pendingSession = Some 0" "nextTask pendingSession = 1"
    "length (tasks pendingSession) = 1"
    by (simp_all add: pendingSession_value)
  note t = capture_starts_whether_or_not_one_is_pending [OF h1 h2 h3,
      of 0 "\<lparr>taskId = 0, taskReason = Interval, awaiting = True\<rparr>" SaveOk 6000]
  from t obtain w where
    a: "tasks (fst (captureSnapshot Interval exampleEnv pendingSession)) =
        tasks pendingSession @
        [\<lparr>taskId = nextTask pendingSession, taskReason = Interval, awaiting = w\<rparr>]"
    by blast
  from a p have a': "length (tasks (fst (captureSnapshot Interval exampleEnv pendingSession))) = 2"
    by simp
  from t p have b: "pendingSnapshot (fst (captureSnapshot Interval exampleEnv pendingSession)) = Some 1"
    by simp
  from t f have c: "tasks (fst (completeSnapshot 0 SaveOk 6000 pendingSession)) =
      filter (\<lambda>u. taskId u \<noteq> 0) (tasks pendingSession)"
    and d: "pendingSnapshot (fst (completeSnapshot 0 SaveOk 6000 pendingSession)) =
      (if pendingSnapshot pendingSession = Some 0 then None else pendingSnapshot pendingSession)"
    by blast+
  from c have c': "tasks (fst (completeSnapshot 0 SaveOk 6000 pendingSession)) = []"
    by (simp add: pendingSession_value)
  from d p have d': "pendingSnapshot (fst (completeSnapshot 0 SaveOk 6000 pendingSession)) = None"
    by simp
  from h1 h2 p a' b c' d' show ?thesis by simp
qed

section \<open>Debounce of detach captures\<close>

lemma detachingSession_value:
  "detachingSession =
     startedSession\<lparr>opened := True,
                    tasks := [\<lparr>taskId = 0, taskReason = Detach, awaiting = True\<rparr>],
                    pendingSnapshot := Some 0, nextTask := 1\<rparr>"
  by (simp add: detachingSession_def detach_def captureSnapshot_def exampleEnv_def
        attachedSession_value startedSession_value Let_def)

text \<open>
  C5. Let a capture task tagged detach complete at the clock reading \<open>stamp\<close> (a
  reading of \<^verbatim>\<open>Date.now()\<close>, which is not zero). A detach capture attempted while
  the clock is less than 1500 ms past \<open>stamp\<close> is skipped: the session is unchanged and
  nothing is called, so no task is started and nothing is saved. At 1500 ms or more
  past \<open>stamp\<close> the debounce does not apply: with the store present and the session
  not disposed a task is started and recorded, and a non-empty buffer is saved.
\<close>

theorem detach_capture_debounced_within_1500ms:
  assumes "findTask n (tasks s) = Some t" and "taskReason t = Detach" and "stamp \<noteq> 0"
  shows "(clock e - stamp < 1500 \<longrightarrow>
            captureSnapshot Detach e (fst (completeSnapshot n res stamp s)) =
              (fst (completeSnapshot n res stamp s), []))
         \<and> (1500 \<le> clock e - stamp \<and> saveApi e \<and> \<not> disposed s \<longrightarrow>
              pendingSnapshot (fst (captureSnapshot Detach e (fst (completeSnapshot n res stamp s)))) =
                Some (nextTask s)
              \<and> length (tasks (fst (captureSnapshot Detach e (fst (completeSnapshot n res stamp s))))) =
                Suc (length (tasks (fst (completeSnapshot n res stamp s))))
              \<and> (\<forall>d. serialized e = Some d \<and> d \<noteq> [] \<longrightarrow>
                   length (filter isSave
                     (snd (captureSnapshot Detach e (fst (completeSnapshot n res stamp s))))) = 1))"
proof -
  let ?s1 = "fst (completeSnapshot n res stamp s)"
  note c = completeSnapshot_found [OF assms(1), of res stamp]
  have at: "lastSnapshotAt ?s1 = Some stamp" and why: "lastSnapshotReason ?s1 = Some Detach"
    using c(3,4) assms(2) by simp_all
  have skip: "clock e - stamp < 1500 \<Longrightarrow> captureSnapshot Detach e ?s1 = (?s1, [])"
    using at why assms(3) by (simp add: captureSnapshot_def truthyInt_def)
  have go: "pendingSnapshot (fst (captureSnapshot Detach e ?s1)) = Some (nextTask s)
      \<and> length (tasks (fst (captureSnapshot Detach e ?s1))) = Suc (length (tasks ?s1))
      \<and> (\<forall>d. serialized e = Some d \<and> d \<noteq> [] \<longrightarrow>
            length (filter isSave (snd (captureSnapshot Detach e ?s1))) = 1)"
    if late: "1500 \<le> clock e - stamp" and api: "saveApi e" and live: "\<not> disposed s"
  proof -
    have live1: "\<not> disposed ?s1" using c(5) live by simp
    have nodeb: "\<not> (Detach = Detach \<and> lastSnapshotReason ?s1 = Some Detach
        \<and> truthyInt (lastSnapshotAt ?s1) \<and> clock e - the (lastSnapshotAt ?s1) < 1500)"
      using at late by simp
    from captureSnapshot_started [OF api live1 nodeb] obtain w body where
      eq: "captureSnapshot Detach e ?s1 =
        (?s1\<lparr>tasks := tasks ?s1 @ [\<lparr>taskId = nextTask ?s1, taskReason = Detach, awaiting = w\<rparr>],
           pendingSnapshot := Some (nextTask ?s1),
           nextTask := nextTask ?s1 + 1\<rparr>, body)"
      by blast
    have "pendingSnapshot (fst (captureSnapshot Detach e ?s1)) = Some (nextTask s)"
      using eq c(6) by simp
    moreover have "length (tasks (fst (captureSnapshot Detach e ?s1))) = Suc (length (tasks ?s1))"
      using eq by simp
    moreover have "\<forall>d. serialized e = Some d \<and> d \<noteq> [] \<longrightarrow>
            length (filter isSave (snd (captureSnapshot Detach e ?s1))) = 1"
      using captureSnapshot_saves [OF api live1 nodeb] by blast
    ultimately show ?thesis by blast
  qed
  from skip go show ?thesis by blast
qed

theorem detach_capture_debounced_within_1500ms_witness:
  "findTask 0 (tasks detachingSession) = Some \<lparr>taskId = 0, taskReason = Detach, awaiting = True\<rparr>
   \<and> (10000::int) \<noteq> 0
   \<and> clock (exampleEnv\<lparr>clock := 11499\<rparr>) - 10000 < 1500
   \<and> captureSnapshot Detach (exampleEnv\<lparr>clock := 11499\<rparr>)
         (fst (completeSnapshot 0 SaveOk 10000 detachingSession)) =
       (fst (completeSnapshot 0 SaveOk 10000 detachingSession), [])
   \<and> 1500 \<le> clock (exampleEnv\<lparr>clock := 11500\<rparr>) - 10000
   \<and> pendingSnapshot (fst (captureSnapshot Detach (exampleEnv\<lparr>clock := 11500\<rparr>)
         (fst (completeSnapshot 0 SaveOk 10000 detachingSession)))) = Some 1
   \<and> length (filter isSave (snd (captureSnapshot Detach (exampleEnv\<lparr>clock := 11500\<rparr>)
         (fst (completeSnapshot 0 SaveOk 10000 detachingSession))))) = 1"
proof -
  have f: "findTask 0 (tasks detachingSession) =
      Some \<lparr>taskId = 0, taskReason = Detach, awaiting = True\<rparr>"
    by (simp add: detachingSession_value)
  have r: "taskReason \<lparr>taskId = 0, taskReason = Detach, awaiting = True\<rparr> = Detach" by simp
  have z: "(10000::int) \<noteq> 0" by simp
  have early: "clock (exampleEnv\<lparr>clock := 11499\<rparr>) - 10000 < 1500" by simp
  have late: "1500 \<le> clock (exampleEnv\<lparr>clock := 11500\<rparr>) - 10000
      \<and> saveApi (exampleEnv\<lparr>clock := 11500\<rparr>) \<and> \<not> disposed detachingSession"
    by (simp add: exampleEnv_def detachingSession_value startedSession_value)
  have ser: "serialized (exampleEnv\<lparr>clock := 11500\<rparr>) = Some ''abc'' \<and> ''abc'' \<noteq> []"
    by (simp add: exampleEnv_def)
  have nt: "nextTask detachingSession = 1" by (simp add: detachingSession_value)
  from detach_capture_debounced_within_1500ms [OF f r z, of "exampleEnv\<lparr>clock := 11499\<rparr>" SaveOk]
    early
  have a: "captureSnapshot Detach (exampleEnv\<lparr>clock := 11499\<rparr>)
         (fst (completeSnapshot 0 SaveOk 10000 detachingSession)) =
       (fst (completeSnapshot 0 SaveOk 10000 detachingSession), [])"
    by blast
  from detach_capture_debounced_within_1500ms [OF f r z, of "exampleEnv\<lparr>clock := 11500\<rparr>" SaveOk]
    late ser nt
  have b: "pendingSnapshot (fst (captureSnapshot Detach (exampleEnv\<lparr>clock := 11500\<rparr>)
         (fst (completeSnapshot 0 SaveOk 10000 detachingSession)))) = Some 1"
    and c: "length (filter isSave (snd (captureSnapshot Detach (exampleEnv\<lparr>clock := 11500\<rparr>)
         (fst (completeSnapshot 0 SaveOk 10000 detachingSession))))) = 1"
    by metis+
  from f z early a late b c show ?thesis by blast
qed

section \<open>Attach and detach\<close>

lemma attach_live:
  assumes "\<not> disposed s" and "attachedOnce s"
  shows "\<exists>s' es. attach c e s = Inr (s', es) \<and> attachedOnce s' \<and> \<not> disposed s'
           \<and> attachedContainer s' = Some c"
proof (cases "attachedContainer s = Some c")
  case True
  with assms show ?thesis by (simp add: attach_def)
next
  case False
  let ?d = "fst (detach e s)"
  have d: "attachedOnce ?d" "attachedContainer ?d = None" "\<not> disposed ?d"
    using assms by (simp_all add: detach_attachedOnce detach_clears detach_disposed)
  then have o: "observers ?d = []" by (simp add: attachedOnce_def)
  from False assms(1) d o show ?thesis
    by (simp add: attach_def Let_def split_beta attachedOnce_def)
qed

lemma step_live:
  assumes "\<not> disposed s" and "attachedOnce s"
  shows "\<exists>s' es. step k s = Inr (s', es) \<and> attachedOnce s' \<and> \<not> disposed s'"
proof (cases k)
  case (CallAttach c e)
  with attach_live [OF assms, of c e] show ?thesis by (auto simp: step_def)
next
  case (CallDetach e)
  with assms show ?thesis
    by (cases "detach e s") (use detach_attachedOnce [of s e] detach_disposed [of e s] in
        \<open>auto simp: step_def\<close>)
qed

lemma run_live:
  "\<not> disposed s \<Longrightarrow> attachedOnce s \<Longrightarrow>
     \<exists>s' es. run ks s = Inr (s', es) \<and> attachedOnce s' \<and> \<not> disposed s'"
proof (induction ks arbitrary: s)
  case Nil
  then show ?case by simp
next
  case (Cons k ks)
  from step_live [OF Cons.prems, of k] obtain s1 es1 where
    st: "step k s = Inr (s1, es1)" and inv: "attachedOnce s1" "\<not> disposed s1"
    by blast
  from Cons.IH [OF inv(2) inv(1)] obtain s2 es2 where
    "run ks s1 = Inr (s2, es2)" "attachedOnce s2" "\<not> disposed s2"
    by blast
  with st show ?case by simp
qed

lemma newSession_attachedOnce: "attachedOnce (newSession c r) \<and> \<not> disposed (newSession c r)"
  by (simp add: newSession_def attachedOnce_def)

text \<open>
  C7. Start from a session that is not disposed and whose attachment is consistent (as
  the constructor leaves it). After every prefix of every sequence of attach and detach
  calls no call has thrown, the session is still consistent: its root element sits
  under exactly the attached surface (or the host), and the only connected observer is
  the one on that surface. attach of the attached surface returns the session
  unchanged and calls nothing; attach of another surface first performs detach
  (observer disconnected, root element back under the host) and then moves the root
  element under the new surface; detach with no surface attached returns the session
  unchanged and calls nothing, so it starts no capture.
\<close>

theorem at_most_one_surface_attached:
  assumes "\<not> disposed s" and "attachedOnce s"
  shows "(\<forall>n. \<exists>s' es. run (take n ks) s = Inr (s', es) \<and> attachedOnce s' \<and> \<not> disposed s')
         \<and> (attachedContainer s = Some c \<longrightarrow> attach c e s = Inr (s, []))
         \<and> (attachedContainer s = Some d \<and> d \<noteq> c \<longrightarrow>
              (\<exists>s' rest. attach c e s =
                   Inr (s', snd (detach e s) @ AppendChild (Surface c) # rest)
                 \<and> attachedContainer s' = Some c \<and> observers s' = [c])
              \<and> take 2 (snd (detach e s)) = [ObserverDisconnect d, AppendChild Host])
         \<and> (attachedContainer s = None \<longrightarrow> detach e s = (s, []))"
proof -
  have seq: "\<forall>n. \<exists>s' es. run (take n ks) s = Inr (s', es) \<and> attachedOnce s' \<and> \<not> disposed s'"
    using run_live [OF assms] by blast
  have same: "attachedContainer s = Some c \<longrightarrow> attach c e s = Inr (s, [])"
    using assms(1) by (simp add: attach_def)
  have other: "(\<exists>s' rest. attach c e s =
                   Inr (s', snd (detach e s) @ AppendChild (Surface c) # rest)
                 \<and> attachedContainer s' = Some c \<and> observers s' = [c])
              \<and> take 2 (snd (detach e s)) = [ObserverDisconnect d, AppendChild Host]"
    if at: "attachedContainer s = Some d" and ne: "d \<noteq> c"
  proof -
    let ?d = "fst (detach e s)"
    have "attachedOnce ?d" "attachedContainer ?d = None"
      using assms by (simp_all add: detach_attachedOnce detach_clears)
    then have o: "observers ?d = []" by (simp add: attachedOnce_def)
    have obs: "resizeObserver s = Some d" using assms(2) at by (simp add: attachedOnce_def)
    have first: "take 2 (snd (detach e s)) = [ObserverDisconnect d, AppendChild Host]"
      using at obs by (simp add: detach_def Let_def split_beta)
    have "\<exists>s' rest. attach c e s =
                   Inr (s', snd (detach e s) @ AppendChild (Surface c) # rest)
                 \<and> attachedContainer s' = Some c \<and> observers s' = [c]"
      using assms(1) at ne o by (simp add: attach_def Let_def split_beta)
    with first show ?thesis by blast
  qed
  have none: "attachedContainer s = None \<longrightarrow> detach e s = (s, [])"
    by (simp add: detach_unattached)
  from seq same other none show ?thesis by blast
qed

theorem at_most_one_surface_attached_witness:
  "\<not> disposed attachedSession \<and> attachedOnce attachedSession
   \<and> attachedContainer attachedSession = Some 7
   \<and> (\<exists>s' es. run (take 3 [CallAttach 9 exampleEnv, CallAttach 7 exampleEnv,
                              CallDetach exampleEnv, CallDetach exampleEnv]) attachedSession =
                  Inr (s', es) \<and> attachedOnce s' \<and> \<not> disposed s')
   \<and> attach 7 exampleEnv attachedSession = Inr (attachedSession, [])
   \<and> take 2 (snd (detach exampleEnv attachedSession)) = [ObserverDisconnect 7, AppendChild Host]
   \<and> (\<exists>s' rest. attach 9 exampleEnv attachedSession =
          Inr (s', snd (detach exampleEnv attachedSession) @ AppendChild (Surface 9) # rest)
        \<and> attachedContainer s' = Some 9 \<and> observers s' = [9])"
proof -
  have live: "\<not> disposed attachedSession"
    by (simp add: attachedSession_value startedSession_value)
  have once: "attachedOnce attachedSession"
    by (simp add: attachedOnce_def attachedSession_value startedSession_value)
  have at: "attachedContainer attachedSession = Some 7"
    by (simp add: attachedSession_value)
  note t = at_most_one_surface_attached [OF live once,
      of "[CallAttach 9 exampleEnv, CallAttach 7 exampleEnv,
           CallDetach exampleEnv, CallDetach exampleEnv]" 7 exampleEnv 7]
  note u = at_most_one_surface_attached [OF live once, of "[]" 9 exampleEnv 7]
  from t have seq: "\<exists>s' es. run (take 3 [CallAttach 9 exampleEnv, CallAttach 7 exampleEnv,
                              CallDetach exampleEnv, CallDetach exampleEnv]) attachedSession =
                  Inr (s', es) \<and> attachedOnce s' \<and> \<not> disposed s'"
    by blast
  from t at have same: "attach 7 exampleEnv attachedSession = Inr (attachedSession, [])"
    by blast
  have ne: "(7::nat) \<noteq> 9" by simp
  from u at ne have other:
    "(\<exists>s' rest. attach 9 exampleEnv attachedSession =
          Inr (s', snd (detach exampleEnv attachedSession) @ AppendChild (Surface 9) # rest)
        \<and> attachedContainer s' = Some 9 \<and> observers s' = [9])
     \<and> take 2 (snd (detach exampleEnv attachedSession)) = [ObserverDisconnect 7, AppendChild Host]"
    by blast
  from live once at seq same other show ?thesis by blast
qed

end
